theory Spec2Isabelle
  imports Main
begin

section \<open>Image descriptors\<close>

text \<open>
  The interface \<open>PortfolioImage\<close> of \<open>PortfolioLightbox.tsx\<close> and
  \<open>EnhancedLightbox.tsx\<close>: two required strings and two optional ones.
\<close>

record PortfolioImage =
  src :: string
  alt :: string
  caption :: "string option"
  description :: "string option"

text \<open>
  Reading \<open>xs[i]\<close> in JavaScript: an index outside the array yields \<open>undefined\<close>
  (here \<open>None\<close>); it is neither clamped nor wrapped. Indices and lengths are
  JavaScript numbers holding integers, modelled as \<open>int\<close>.
\<close>

definition js_index :: "'a list \<Rightarrow> int \<Rightarrow> 'a option" where
  "js_index xs i = (if 0 \<le> i \<and> i < int (length xs) then Some (xs ! nat i) else None)"

text \<open>
  A call either completes (\<open>Inr\<close>) or throws (\<open>Inl\<close>). The only exception the
  modelled code can raise is the \<open>TypeError\<close> of reading a property of
  \<open>undefined\<close>.
\<close>

datatype js_error = TypeError

section \<open>PortfolioLightbox\<close>

text \<open>
  The props of the component (\<open>currentIndex\<close> is destructured as
  \<open>initialIndex\<close>; \<open>onClose\<close> is a callback of the parent and appears below
  as the flag \<open>closeCalled\<close>), and its three \<open>useState\<close> cells.
\<close>

record PortfolioLightboxProps =
  isOpen :: bool
  images :: "PortfolioImage list"
  initialIndex :: int
  title :: string

record LightboxState =
  currentIndex :: int
  isZoomed :: bool
  showThumbnails :: bool

text \<open>The initial values of the three \<open>useState\<close> cells when the component mounts.\<close>

definition mount :: "PortfolioLightboxProps \<Rightarrow> LightboxState" where
  "mount p = \<lparr>currentIndex = initialIndex p, isZoomed = False, showThumbnails = False\<rparr>"

text \<open>The effect on \<open>[initialIndex]\<close>: \<open>setCurrentIndex(initialIndex)\<close>.\<close>

definition syncIndex :: "PortfolioLightboxProps \<Rightarrow> LightboxState \<Rightarrow> LightboxState" where
  "syncIndex p s = s\<lparr>currentIndex := initialIndex p\<rparr>"

definition goToPrevious :: "PortfolioLightboxProps \<Rightarrow> LightboxState \<Rightarrow> LightboxState" where
  "goToPrevious p s =
     s\<lparr>currentIndex :=
          (if currentIndex s = 0 then int (length (images p)) - 1 else currentIndex s - 1),
        isZoomed := False\<rparr>"

definition goToNext :: "PortfolioLightboxProps \<Rightarrow> LightboxState \<Rightarrow> LightboxState" where
  "goToNext p s =
     s\<lparr>currentIndex :=
          (if currentIndex s = int (length (images p)) - 1 then 0 else currentIndex s + 1),
        isZoomed := False\<rparr>"

definition goToImage :: "int \<Rightarrow> LightboxState \<Rightarrow> LightboxState" where
  "goToImage index s = s\<lparr>currentIndex := index, isZoomed := False\<rparr>"

definition toggleZoom :: "LightboxState \<Rightarrow> LightboxState" where
  "toggleZoom s = s\<lparr>isZoomed := \<not> isZoomed s\<rparr>"

text \<open>
  The predicate of the data model: the index addresses an image of the set.
\<close>

definition validIndex :: "PortfolioLightboxProps \<Rightarrow> LightboxState \<Rightarrow> bool" where
  "validIndex p s = (0 \<le> currentIndex s \<and> currentIndex s < int (length (images p)))"

text \<open>
  The indices the thumbnail strip passes to \<open>goToImage\<close>: the strip is
  \<open>images.map((image, index) => ... onClick={() => goToImage(index)})\<close>.
\<close>

definition thumbnailIndices :: "PortfolioLightboxProps \<Rightarrow> int list" where
  "thumbnailIndices p = map int [0..<length (images p)]"

subsection \<open>Keyboard\<close>

text \<open>
  What one run of \<open>handleKeyDown\<close> leaves behind: the component state, whether the
  parent's \<open>onClose\<close> was called and whether \<open>e.preventDefault()\<close> was called.
  The handler has no \<open>throw\<close>; its guard for a closed lightbox is a plain
  \<open>return\<close>, so every branch completes.
\<close>

record KeyResult =
  newState :: LightboxState
  closeCalled :: bool
  defaultPrevented :: bool

definition handleKeyDown ::
  "PortfolioLightboxProps \<Rightarrow> string \<Rightarrow> LightboxState \<Rightarrow> js_error + KeyResult" where
  "handleKeyDown p key s =
     (if \<not> isOpen p then
        Inr \<lparr>newState = s, closeCalled = False, defaultPrevented = False\<rparr>
      else if key = ''Escape'' then
        Inr \<lparr>newState = s, closeCalled = True, defaultPrevented = False\<rparr>
      else if key = ''ArrowLeft'' then
        Inr \<lparr>newState = goToPrevious p s, closeCalled = False, defaultPrevented = True\<rparr>
      else if key = ''ArrowRight'' then
        Inr \<lparr>newState = goToNext p s, closeCalled = False, defaultPrevented = True\<rparr>
      else if key = ''z'' then
        Inr \<lparr>newState = toggleZoom s, closeCalled = False, defaultPrevented = True\<rparr>
      else if key = ''Z'' then
        Inr \<lparr>newState = toggleZoom s, closeCalled = False, defaultPrevented = True\<rparr>
      else if key = ''t'' then
        Inr \<lparr>newState = s\<lparr>showThumbnails := \<not> showThumbnails s\<rparr>,
             closeCalled = False, defaultPrevented = True\<rparr>
      else if key = ''T'' then
        Inr \<lparr>newState = s\<lparr>showThumbnails := \<not> showThumbnails s\<rparr>,
             closeCalled = False, defaultPrevented = True\<rparr>
      else
        Inr \<lparr>newState = s, closeCalled = False, defaultPrevented = False\<rparr>)"

text \<open>
  The listeners this component holds on \<open>document\<close>. The keyboard effect adds
  \<open>handleKeyDown\<close> only when the lightbox is open; its cleanup removes it. React
  runs the cleanup of the previous run before it runs an effect again.
\<close>

record DocumentListeners =
  keydownListener :: bool
  touchstartListener :: bool
  touchendListener :: bool

definition keyboardEffect :: "PortfolioLightboxProps \<Rightarrow> DocumentListeners \<Rightarrow> DocumentListeners" where
  "keyboardEffect p d = (if isOpen p then d\<lparr>keydownListener := True\<rparr> else d)"

definition keyboardEffect_cleanup :: "DocumentListeners \<Rightarrow> DocumentListeners" where
  "keyboardEffect_cleanup d = d\<lparr>keydownListener := False\<rparr>"

subsection \<open>Touch\<close>

text \<open>
  The calls a touch handler makes to the navigation functions, in order.
\<close>

datatype NavCall = GoToNext | GoToPrevious

text \<open>
  \<open>handleTouchEnd\<close>, with the two variables \<open>touchStartX\<close> and \<open>touchEndX\<close> of
  the effect as arguments (the second is the \<open>screenX\<close> of the ending touch). The
  result is the new state and the navigation calls made. Coordinates are whole
  numbers of pixels.
\<close>

definition swipeThreshold :: int where
  "swipeThreshold = 50"

definition handleTouchEnd ::
  "PortfolioLightboxProps \<Rightarrow> int \<Rightarrow> int \<Rightarrow> LightboxState \<Rightarrow> LightboxState \<times> NavCall list" where
  "handleTouchEnd p touchStartX touchEndX s =
     (if touchStartX - touchEndX > swipeThreshold then (goToNext p s, [GoToNext])
      else if touchEndX - touchStartX > swipeThreshold then (goToPrevious p s, [GoToPrevious])
      else (s, []))"

definition touchEffect :: "PortfolioLightboxProps \<Rightarrow> DocumentListeners \<Rightarrow> DocumentListeners" where
  "touchEffect p d =
     (if isOpen p then d\<lparr>touchstartListener := True, touchendListener := True\<rparr> else d)"

definition touchEffect_cleanup :: "DocumentListeners \<Rightarrow> DocumentListeners" where
  "touchEffect_cleanup d = d\<lparr>touchstartListener := False, touchendListener := False\<rparr>"

section \<open>EnhancedLightbox\<close>

text \<open>
  The props of the simple lightbox (\<open>title\<close> and \<open>description\<close> are optional) and
  what it renders: \<open>null\<close> (\<open>None\<close>) or the image and the texts shown with it.
\<close>

record EnhancedLightboxProps =
  props_isOpen :: bool
  props_images :: "PortfolioImage list"
  props_currentIndex :: int
  props_title :: "string option"
  props_description :: "string option"

record LightboxView =
  view_src :: string
  view_alt :: string
  view_heading :: "string option"
  view_text :: "string option"

text \<open>\<open>a || b\<close> on optional strings: \<open>undefined\<close> and the empty string are falsy.\<close>

definition js_truthy :: "string option \<Rightarrow> bool" where
  "js_truthy v = (case v of None \<Rightarrow> False | Some t \<Rightarrow> t \<noteq> [])"

definition js_or :: "string option \<Rightarrow> string option \<Rightarrow> string option" where
  "js_or a b = (if js_truthy a then a else b)"

text \<open>
  The component body after the two effects. An index outside the array makes
  \<open>currentImage\<close> \<open>undefined\<close>, and \<open>currentImage.src\<close> then throws.
\<close>

definition EnhancedLightbox :: "EnhancedLightboxProps \<Rightarrow> js_error + LightboxView option" where
  "EnhancedLightbox p =
     (if \<not> props_isOpen p \<or> length (props_images p) = 0 then Inr None
      else case js_index (props_images p) (props_currentIndex p) of
             None \<Rightarrow> Inl TypeError
           | Some currentImage \<Rightarrow>
               Inr (Some \<lparr>view_src = src currentImage,
                          view_alt = alt currentImage,
                          view_heading =
                            js_or (js_or (caption currentImage) (props_title p))
                                  (Some ''Portfolio Image''),
                          view_text =
                            (if js_truthy (js_or (description currentImage) (props_description p))
                             then js_or (description currentImage) (props_description p)
                             else None)\<rparr>))"

section \<open>PortfolioMosaic\<close>

text \<open>The \<open>lightbox\<close> state cell of the mosaic and its two setters.\<close>

record MosaicLightbox =
  lightbox_isOpen :: bool
  lightbox_images :: "PortfolioImage list"
  lightbox_currentIndex :: int
  lightbox_title :: string
  lightbox_description :: string

definition openLightbox ::
  "PortfolioImage list \<Rightarrow> int \<Rightarrow> string \<Rightarrow> string \<Rightarrow> MosaicLightbox" where
  "openLightbox imgs index ttl descr =
     \<lparr>lightbox_isOpen = True, lightbox_images = imgs, lightbox_currentIndex = index,
      lightbox_title = ttl, lightbox_description = descr\<rparr>"

definition closeLightbox :: "MosaicLightbox \<Rightarrow> MosaicLightbox" where
  "closeLightbox prev = prev\<lparr>lightbox_isOpen := False\<rparr>"

text \<open>The \<open>EnhancedLightbox\<close> element of the mosaic, fed from the state cell.\<close>

definition PortfolioMosaic_lightbox :: "MosaicLightbox \<Rightarrow> js_error + LightboxView option" where
  "PortfolioMosaic_lightbox m =
     EnhancedLightbox
       \<lparr>props_isOpen = lightbox_isOpen m, props_images = lightbox_images m,
        props_currentIndex = lightbox_currentIndex m,
        props_title = Some (lightbox_title m),
        props_description = Some (lightbox_description m)\<rparr>"

section \<open>Card sliders\<close>

text \<open>
  \<open>PortfolioCard\<close> and \<open>SliderCard\<close> keep the same three state cells. The touch
  coordinates are \<open>number | null\<close>.
\<close>

record CardState =
  currentImageIndex :: int
  touchStart :: "int option"
  touchEnd :: "int option"

definition minSwipeDistance :: int where
  "minSwipeDistance = 50"

text \<open>\<open>!x\<close> for \<open>x : number | null\<close>: true for \<open>null\<close> and for \<open>0\<close>.\<close>

definition js_not :: "int option \<Rightarrow> bool" where
  "js_not v = (case v of None \<Rightarrow> True | Some x \<Rightarrow> x = 0)"

definition onTouchStart :: "int \<Rightarrow> CardState \<Rightarrow> CardState" where
  "onTouchStart clientX c = c\<lparr>touchEnd := None, touchStart := Some clientX\<rparr>"

definition onTouchMove :: "int \<Rightarrow> CardState \<Rightarrow> CardState" where
  "onTouchMove clientX c = c\<lparr>touchEnd := Some clientX\<rparr>"

subsection \<open>PortfolioCard\<close>

definition PortfolioCard_goToPrevious :: "PortfolioImage list \<Rightarrow> CardState \<Rightarrow> CardState" where
  "PortfolioCard_goToPrevious imgs c =
     c\<lparr>currentImageIndex :=
          (if currentImageIndex c = 0 then int (length imgs) - 1 else currentImageIndex c - 1)\<rparr>"

definition PortfolioCard_goToNext :: "PortfolioImage list \<Rightarrow> CardState \<Rightarrow> CardState" where
  "PortfolioCard_goToNext imgs c =
     c\<lparr>currentImageIndex :=
          (if currentImageIndex c = int (length imgs) - 1 then 0 else currentImageIndex c + 1)\<rparr>"

definition PortfolioCard_onTouchEnd ::
  "PortfolioImage list \<Rightarrow> CardState \<Rightarrow> CardState \<times> NavCall list" where
  "PortfolioCard_onTouchEnd imgs c =
     (if js_not (touchStart c) \<or> js_not (touchEnd c) then (c, [])
      else
        case (touchStart c, touchEnd c) of
          (Some ts, Some te) \<Rightarrow>
            let distance = ts - te;
                isLeftSwipe = distance > minSwipeDistance;
                isRightSwipe = distance < - minSwipeDistance;
                hasMultipleImages = length imgs > 1;
                (c1, calls1) =
                  (if isLeftSwipe \<and> hasMultipleImages
                   then (PortfolioCard_goToNext imgs c, [GoToNext]) else (c, []));
                (c2, calls2) =
                  (if isRightSwipe \<and> hasMultipleImages
                   then (PortfolioCard_goToPrevious imgs c1, [GoToPrevious]) else (c1, []))
            in (c2, calls1 @ calls2)
        | _ \<Rightarrow> (c, []))"

subsection \<open>SliderCard\<close>

definition SliderCard_goToPrevious :: "PortfolioImage list \<Rightarrow> CardState \<Rightarrow> CardState" where
  "SliderCard_goToPrevious imgs c =
     c\<lparr>currentImageIndex :=
          (if currentImageIndex c = 0 then int (length imgs) - 1 else currentImageIndex c - 1)\<rparr>"

definition SliderCard_goToNext :: "PortfolioImage list \<Rightarrow> CardState \<Rightarrow> CardState" where
  "SliderCard_goToNext imgs c =
     c\<lparr>currentImageIndex :=
          (if currentImageIndex c = int (length imgs) - 1 then 0 else currentImageIndex c + 1)\<rparr>"

definition SliderCard_onTouchEnd ::
  "PortfolioImage list \<Rightarrow> CardState \<Rightarrow> CardState \<times> NavCall list" where
  "SliderCard_onTouchEnd imgs c =
     (if js_not (touchStart c) \<or> js_not (touchEnd c) then (c, [])
      else
        case (touchStart c, touchEnd c) of
          (Some ts, Some te) \<Rightarrow>
            let distance = ts - te;
                isLeftSwipe = distance > minSwipeDistance;
                isRightSwipe = distance < - minSwipeDistance;
                hasMultipleImages = length imgs > 1;
                (c1, calls1) =
                  (if isLeftSwipe \<and> hasMultipleImages
                   then (SliderCard_goToNext imgs c, [GoToNext]) else (c, []));
                (c2, calls2) =
                  (if isRightSwipe \<and> hasMultipleImages
                   then (SliderCard_goToPrevious imgs c1, [GoToPrevious]) else (c1, []))
            in (c2, calls1 @ calls2)
        | _ \<Rightarrow> (c, []))"

section \<open>Sample values\<close>

definition festival :: PortfolioImage where
  "festival = \<lparr>src = ''festival.jpg'', alt = ''Festival makeup'',
               caption = Some ''Festival Artistry'', description = None\<rparr>"

definition gallery :: "nat \<Rightarrow> PortfolioLightboxProps" where
  "gallery n = \<lparr>isOpen = True, images = replicate n festival, initialIndex = 0, title = ''Gallery''\<rparr>"

definition showing :: "int \<Rightarrow> LightboxState" where
  "showing i = \<lparr>currentIndex = i, isZoomed = True, showThumbnails = True\<rparr>"

section \<open>Navigation in the lightbox\<close>

lemma goToNext_index:
  "currentIndex (goToNext p s) =
     (if currentIndex s = int (length (images p)) - 1 then 0 else currentIndex s + 1)"
  by (simp add: goToNext_def)

lemma goToPrevious_index:
  "currentIndex (goToPrevious p s) =
     (if currentIndex s = 0 then int (length (images p)) - 1 else currentIndex s - 1)"
  by (simp add: goToPrevious_def)

lemma goToNext_mod:
  assumes "0 \<le> currentIndex s" and "currentIndex s < int (length (images p))"
  shows "currentIndex (goToNext p s) = (currentIndex s + 1) mod int (length (images p))"
proof (cases "currentIndex s = int (length (images p)) - 1")
  case True
  then show ?thesis by (simp add: goToNext_index)
next
  case False
  with assms have "currentIndex s + 1 < int (length (images p))" by simp
  with assms False show ?thesis by (simp add: goToNext_index)
qed

lemma goToNext_valid:
  assumes "validIndex p s"
  shows "validIndex p (goToNext p s)"
  using assms by (auto simp: validIndex_def goToNext_index)

lemma goToNext_iterate:
  assumes "validIndex p s"
  shows "validIndex p ((goToNext p ^^ k) s) \<and>
         currentIndex ((goToNext p ^^ k) s) = (currentIndex s + int k) mod int (length (images p))"
proof (induction k)
  case 0
  from assms show ?case by (simp add: validIndex_def)
next
  case (Suc k)
  let ?t = "(goToNext p ^^ k) s"
  from Suc have v: "validIndex p ?t"
    and i: "currentIndex ?t = (currentIndex s + int k) mod int (length (images p))"
    by simp_all
  from v have "currentIndex (goToNext p ?t) = (currentIndex ?t + 1) mod int (length (images p))"
    by (simp add: goToNext_mod validIndex_def)
  also have "\<dots> = (currentIndex s + int (Suc k)) mod int (length (images p))"
    by (simp add: i mod_simps ac_simps)
  finally show ?case using v by (simp add: goToNext_valid)
qed

text \<open>
  C4. Whatever the zoom flag was before, after \<open>goToNext\<close>, after \<open>goToPrevious\<close> and
  after \<open>goToImage\<close> the lightbox is not zoomed. None of the three can fail, so every
  such navigation is a successful one.
\<close>

theorem navigation_resets_zoom:
  "isZoomed (goToNext p s) = False \<and>
   isZoomed (goToPrevious p s) = False \<and>
   isZoomed (goToImage i s) = False"
  by (simp add: goToNext_def goToPrevious_def goToImage_def)

text \<open>
  C5. Over a non-empty image set of \<open>N\<close> images, from any index of the set,
  \<open>N\<close> applications of \<open>goToNext\<close> lead back to the starting index; with a single
  image one application already does.
\<close>

theorem goToNext_cycle:
  assumes "images p \<noteq> []" and "validIndex p s"
  shows "currentIndex ((goToNext p ^^ length (images p)) s) = currentIndex s \<and>
         (length (images p) = 1 \<longrightarrow> currentIndex (goToNext p s) = currentIndex s)"
proof
  from assms(2) have "currentIndex ((goToNext p ^^ length (images p)) s)
      = (currentIndex s + int (length (images p))) mod int (length (images p))"
    using goToNext_iterate by blast
  also from assms(2) have "\<dots> = currentIndex s"
    by (simp add: validIndex_def)
  finally show "currentIndex ((goToNext p ^^ length (images p)) s) = currentIndex s" .
next
  from assms(2) show "length (images p) = 1 \<longrightarrow> currentIndex (goToNext p s) = currentIndex s"
    by (auto simp: validIndex_def goToNext_index)
qed

text \<open>
  C6. Over a non-empty image set, \<open>goToPrevious\<close> undoes \<open>goToNext\<close>: from any index
  of the set, next followed by previous shows the image it started from.
\<close>

theorem goToPrevious_inverts_goToNext:
  assumes "images p \<noteq> []" and "validIndex p s"
  shows "currentIndex (goToPrevious p (goToNext p s)) = currentIndex s"
  using assms by (auto simp: validIndex_def goToNext_index goToPrevious_index)


theorem goToNext_cycle_witness:
  "images (gallery 3) \<noteq> [] \<and> validIndex (gallery 3) (showing 1) \<and>
   currentIndex ((goToNext (gallery 3) ^^ length (images (gallery 3))) (showing 1)) = 1 \<and>
   length (images (gallery 1)) = 1 \<and> validIndex (gallery 1) (showing 0) \<and>
   currentIndex (goToNext (gallery 1) (showing 0)) = 0"
  using goToNext_cycle [of "gallery 3" "showing 1"] goToNext_cycle [of "gallery 1" "showing 0"]
  by (simp add: gallery_def showing_def validIndex_def)

theorem goToPrevious_inverts_goToNext_witness:
  "images (gallery 3) \<noteq> [] \<and> validIndex (gallery 3) (showing 2) \<and>
   currentIndex (goToPrevious (gallery 3) (goToNext (gallery 3) (showing 2))) = 2"
  using goToPrevious_inverts_goToNext [of "gallery 3" "showing 2"]
  by (simp add: gallery_def showing_def validIndex_def)

section \<open>Jumping to an image\<close>

text \<open>
  C1, as stated, fails: with four images and image 2 shown, \<open>goToImage 5\<close> does not
  leave the index at 2; the index becomes 5.
\<close>

theorem goToImage_rejects_counterexample:
  "length (images (gallery 4)) = 4 \<and> currentIndex (showing 2) = 2 \<and>
   currentIndex (goToImage 5 (showing 2)) = 5 \<and>
   currentIndex (goToImage 5 (showing 2)) \<noteq> currentIndex (showing 2)"
  by (simp add: gallery_def showing_def goToImage_def)

text \<open>
  C1, amended. \<open>goToImage i\<close> has no failing case: for every \<open>i\<close>, inside the image
  set or not, it makes \<open>i\<close> the current index, leaves the thumbnail flag alone and
  ends unzoomed. The resulting index addresses an image exactly when \<open>i\<close> does; every
  index the thumbnail strip passes does.
\<close>

theorem goToImage_sets_index:
  "currentIndex (goToImage i s) = i \<and>
   isZoomed (goToImage i s) = False \<and>
   showThumbnails (goToImage i s) = showThumbnails s \<and>
   (validIndex p (goToImage i s) \<longleftrightarrow> 0 \<le> i \<and> i < int (length (images p))) \<and>
   (\<forall>j \<in> set (thumbnailIndices p). validIndex p (goToImage j s))"
  by (auto simp: goToImage_def validIndex_def thumbnailIndices_def)

theorem goToImage_sets_index_witness:
  "currentIndex (goToImage 3 (showing 2)) = 3 \<and>
   validIndex (gallery 4) (goToImage 3 (showing 2)) \<and>
   3 \<in> set (thumbnailIndices (gallery 4)) \<and>
   currentIndex (goToImage 5 (showing 2)) = 5 \<and>
   \<not> validIndex (gallery 4) (goToImage 5 (showing 2))"
  using goToImage_sets_index [of 3 "showing 2" "gallery 4"]
        goToImage_sets_index [of 5 "showing 2" "gallery 4"]
  by (simp add: gallery_def showing_def thumbnailIndices_def)

section \<open>The index invariant\<close>

text \<open>
  C3, as stated, fails: two of the listed operations leave the image set. With three
  images and a valid index, \<open>goToImage (- 1)\<close> and the index-prop effect with the prop
  at 7 both end outside \<open>[0, 2]\<close>.
\<close>

theorem validIndex_preserved_counterexample:
  "validIndex (gallery 3) (showing 0) \<and>
   \<not> validIndex (gallery 3) (goToImage (- 1) (showing 0)) \<and>
   \<not> validIndex ((gallery 3)\<lparr>initialIndex := 7\<rparr>)
        (syncIndex ((gallery 3)\<lparr>initialIndex := 7\<rparr>) (showing 0))"
  by (simp add: gallery_def showing_def goToImage_def syncIndex_def validIndex_def)

text \<open>
  C3, amended. From an index inside a non-empty image set, \<open>goToNext\<close> and
  \<open>goToPrevious\<close> stay inside it. \<open>goToImage i\<close>, mounting with the index prop at
  \<open>i\<close> and the index-prop effect with the prop at \<open>i\<close> all take \<open>i\<close> as it is, so
  they end inside the image set exactly when \<open>i\<close> is inside it.
\<close>

theorem validIndex_preservation:
  assumes "images p \<noteq> []" and "validIndex p s"
  shows "validIndex p (goToNext p s) \<and>
         validIndex p (goToPrevious p s) \<and>
         (validIndex p (goToImage i s) \<longleftrightarrow> 0 \<le> i \<and> i < int (length (images p))) \<and>
         (validIndex p (mount p) \<longleftrightarrow>
            0 \<le> initialIndex p \<and> initialIndex p < int (length (images p))) \<and>
         (validIndex p (syncIndex p s) \<longleftrightarrow>
            0 \<le> initialIndex p \<and> initialIndex p < int (length (images p)))"
  using assms
  by (auto simp: validIndex_def goToNext_index goToPrevious_index goToImage_def
        mount_def syncIndex_def)

theorem validIndex_preservation_witness:
  "images (gallery 3) \<noteq> [] \<and> validIndex (gallery 3) (showing 2) \<and>
   validIndex (gallery 3) (goToNext (gallery 3) (showing 2)) \<and>
   validIndex (gallery 3) (goToPrevious (gallery 3) (showing 2)) \<and>
   validIndex (gallery 3) (goToImage 1 (showing 2)) \<and>
   validIndex (gallery 3) (mount (gallery 3)) \<and>
   validIndex (gallery 3) (syncIndex (gallery 3) (showing 2))"
  using validIndex_preservation [of "gallery 3" "showing 2" 1]
  by (simp add: gallery_def showing_def validIndex_def)

section \<open>Opening the mosaic's lightbox\<close>

text \<open>
  C2, as stated, fails: \<open>openLightbox\<close> with no images does not leave \<open>isOpen\<close>
  false; the state it sets has \<open>isOpen\<close> true.
\<close>

theorem openLightbox_empty_counterexample:
  "lightbox_images (openLightbox [] 0 ''Portfolio Showcase'' ''Explore'') = [] \<and>
   lightbox_isOpen (openLightbox [] 0 ''Portfolio Showcase'' ''Explore'') = True"
  by (simp add: openLightbox_def)

text \<open>
  C2, amended. \<open>openLightbox\<close> never fails: it stores the images and the index it is
  given and sets \<open>isOpen\<close> to true, also for an empty array. With an empty array the
  lightbox element renders nothing and reads no image, whatever the index.
\<close>

theorem openLightbox_opens:
  "lightbox_isOpen (openLightbox imgs i ttl descr) = True \<and>
   lightbox_images (openLightbox imgs i ttl descr) = imgs \<and>
   lightbox_currentIndex (openLightbox imgs i ttl descr) = i \<and>
   PortfolioMosaic_lightbox (openLightbox [] i ttl descr) = Inr None"
  by (simp add: openLightbox_def PortfolioMosaic_lightbox_def EnhancedLightbox_def)

theorem openLightbox_opens_witness:
  "lightbox_isOpen (openLightbox [] 0 ''Portfolio Showcase'' ''Explore'') = True \<and>
   PortfolioMosaic_lightbox (openLightbox [] 0 ''Portfolio Showcase'' ''Explore'') = Inr None \<and>
   lightbox_isOpen (openLightbox [festival] 0 ''Portfolio Showcase'' ''Explore'') = True \<and>
   lightbox_images (openLightbox [festival] 0 ''Portfolio Showcase'' ''Explore'') = [festival]"
  using openLightbox_opens [of "[]" 0 "''Portfolio Showcase''" "''Explore''"]
        openLightbox_opens [of "[festival]" 0 "''Portfolio Showcase''" "''Explore''"]
  by simp

section \<open>Keys on a closed lightbox\<close>

text \<open>
  C7, as stated, fails: on a closed lightbox \<open>handleKeyDown\<close> does not fail. For the
  right-arrow key it completes, like every other run of the handler.
\<close>

theorem handleKeyDown_closed_counterexample:
  "\<not> isOpen ((gallery 3)\<lparr>isOpen := False\<rparr>) \<and>
   \<not> isl (handleKeyDown ((gallery 3)\<lparr>isOpen := False\<rparr>) ''ArrowRight'' (showing 1))"
  by (simp add: gallery_def handleKeyDown_def)

text \<open>
  C7, amended. On a closed lightbox \<open>handleKeyDown\<close> returns at once for every key,
  without an error: the state is the one before, \<open>onClose\<close> is not called and the
  default action is not prevented. After the keyboard and touch effects have run for
  a closed lightbox, none of the three listeners is on the document.
\<close>

theorem handleKeyDown_closed:
  assumes "\<not> isOpen p"
  shows "handleKeyDown p key s =
           Inr \<lparr>newState = s, closeCalled = False, defaultPrevented = False\<rparr> \<and>
         \<not> keydownListener (keyboardEffect p (keyboardEffect_cleanup d)) \<and>
         \<not> touchstartListener (touchEffect p (touchEffect_cleanup d)) \<and>
         \<not> touchendListener (touchEffect p (touchEffect_cleanup d))"
  using assms
  by (simp add: handleKeyDown_def keyboardEffect_def keyboardEffect_cleanup_def
        touchEffect_def touchEffect_cleanup_def)

theorem handleKeyDown_closed_witness:
  "\<not> isOpen ((gallery 3)\<lparr>isOpen := False\<rparr>) \<and>
   handleKeyDown ((gallery 3)\<lparr>isOpen := False\<rparr>) ''ArrowRight'' (showing 1) =
     Inr \<lparr>newState = showing 1, closeCalled = False, defaultPrevented = False\<rparr> \<and>
   \<not> keydownListener
       (keyboardEffect ((gallery 3)\<lparr>isOpen := False\<rparr>)
          (keyboardEffect_cleanup
             \<lparr>keydownListener = True, touchstartListener = True, touchendListener = True\<rparr>))"
  using handleKeyDown_closed [of "(gallery 3)\<lparr>isOpen := False\<rparr>" "''ArrowRight''" "showing 1"
      "\<lparr>keydownListener = True, touchstartListener = True, touchendListener = True\<rparr>"]
  by (simp add: gallery_def)

section \<open>Swipes\<close>

lemma PortfolioCard_onTouchEnd_calls:
  "length (snd (PortfolioCard_onTouchEnd imgs c)) \<le> 1"
  by (simp add: PortfolioCard_onTouchEnd_def Let_def minSwipeDistance_def
      split: option.splits prod.splits)

lemma SliderCard_onTouchEnd_calls:
  "length (snd (SliderCard_onTouchEnd imgs c)) \<le> 1"
  by (simp add: SliderCard_onTouchEnd_def Let_def minSwipeDistance_def
      split: option.splits prod.splits)

text \<open>
  C8, as stated, fails on a card with a single image: a swipe from 100 to 40, which is
  60 to the left, makes no call to \<open>goToNext\<close>.
\<close>

theorem swipe_single_image_counterexample:
  "(100::int) - 40 > minSwipeDistance \<and>
   PortfolioCard_onTouchEnd [festival]
     \<lparr>currentImageIndex = 0, touchStart = Some 100, touchEnd = Some 40\<rparr> =
     (\<lparr>currentImageIndex = 0, touchStart = Some 100, touchEnd = Some 40\<rparr>, [])"
  by (simp add: PortfolioCard_onTouchEnd_def minSwipeDistance_def js_not_def)

text \<open>
  C8, amended. In the lightbox, a touch that ends at most 50 from where it started
  makes no navigation call, one that ends more than 50 to the left makes exactly the
  call \<open>goToNext\<close>, one that ends more than 50 to the right exactly the call
  \<open>goToPrevious\<close>. In both card sliders the same holds when the card has more than one
  image and both recorded coordinates are not 0; a card with at most one image makes
  no navigation call. No touch end makes more than one navigation call.
\<close>

theorem swipe_navigation:
  "(\<bar>sx - ex\<bar> \<le> 50 \<longrightarrow> handleTouchEnd p sx ex s = (s, [])) \<and>
   (sx - ex > 50 \<longrightarrow> handleTouchEnd p sx ex s = (goToNext p s, [GoToNext])) \<and>
   (ex - sx > 50 \<longrightarrow> handleTouchEnd p sx ex s = (goToPrevious p s, [GoToPrevious])) \<and>
   length (snd (handleTouchEnd p sx ex s)) \<le> 1 \<and>
   length (snd (PortfolioCard_onTouchEnd imgs c)) \<le> 1 \<and>
   length (snd (SliderCard_onTouchEnd imgs c)) \<le> 1 \<and>
   (touchStart c = Some a \<and> touchEnd c = Some b \<and> \<bar>a - b\<bar> \<le> 50 \<longrightarrow>
      PortfolioCard_onTouchEnd imgs c = (c, []) \<and> SliderCard_onTouchEnd imgs c = (c, [])) \<and>
   (length imgs \<le> 1 \<longrightarrow>
      PortfolioCard_onTouchEnd imgs c = (c, []) \<and> SliderCard_onTouchEnd imgs c = (c, [])) \<and>
   (touchStart c = Some a \<and> touchEnd c = Some b \<and> a \<noteq> 0 \<and> b \<noteq> 0 \<and> length imgs > 1 \<and>
    a - b > 50 \<longrightarrow>
      PortfolioCard_onTouchEnd imgs c = (PortfolioCard_goToNext imgs c, [GoToNext]) \<and>
      SliderCard_onTouchEnd imgs c = (SliderCard_goToNext imgs c, [GoToNext])) \<and>
   (touchStart c = Some a \<and> touchEnd c = Some b \<and> a \<noteq> 0 \<and> b \<noteq> 0 \<and> length imgs > 1 \<and>
    b - a > 50 \<longrightarrow>
      PortfolioCard_onTouchEnd imgs c = (PortfolioCard_goToPrevious imgs c, [GoToPrevious]) \<and>
      SliderCard_onTouchEnd imgs c = (SliderCard_goToPrevious imgs c, [GoToPrevious]))"
proof -
  have lightbox:
    "(\<bar>sx - ex\<bar> \<le> 50 \<longrightarrow> handleTouchEnd p sx ex s = (s, [])) \<and>
     (sx - ex > 50 \<longrightarrow> handleTouchEnd p sx ex s = (goToNext p s, [GoToNext])) \<and>
     (ex - sx > 50 \<longrightarrow> handleTouchEnd p sx ex s = (goToPrevious p s, [GoToPrevious])) \<and>
     length (snd (handleTouchEnd p sx ex s)) \<le> 1"
    by (simp add: handleTouchEnd_def swipeThreshold_def)
  have small:
    "touchStart c = Some a \<and> touchEnd c = Some b \<and> \<bar>a - b\<bar> \<le> 50 \<longrightarrow>
      PortfolioCard_onTouchEnd imgs c = (c, []) \<and> SliderCard_onTouchEnd imgs c = (c, [])"
    by (auto simp: PortfolioCard_onTouchEnd_def SliderCard_onTouchEnd_def minSwipeDistance_def
        Let_def)
  have single:
    "length imgs \<le> 1 \<longrightarrow>
      PortfolioCard_onTouchEnd imgs c = (c, []) \<and> SliderCard_onTouchEnd imgs c = (c, [])"
    by (auto simp: PortfolioCard_onTouchEnd_def SliderCard_onTouchEnd_def Let_def
        split: option.splits)
  have left:
    "touchStart c = Some a \<and> touchEnd c = Some b \<and> a \<noteq> 0 \<and> b \<noteq> 0 \<and> length imgs > 1 \<and>
     a - b > 50 \<longrightarrow>
      PortfolioCard_onTouchEnd imgs c = (PortfolioCard_goToNext imgs c, [GoToNext]) \<and>
      SliderCard_onTouchEnd imgs c = (SliderCard_goToNext imgs c, [GoToNext])"
    by (auto simp: PortfolioCard_onTouchEnd_def SliderCard_onTouchEnd_def
        minSwipeDistance_def js_not_def Let_def)
  have right:
    "touchStart c = Some a \<and> touchEnd c = Some b \<and> a \<noteq> 0 \<and> b \<noteq> 0 \<and> length imgs > 1 \<and>
     b - a > 50 \<longrightarrow>
      PortfolioCard_onTouchEnd imgs c = (PortfolioCard_goToPrevious imgs c, [GoToPrevious]) \<and>
      SliderCard_onTouchEnd imgs c = (SliderCard_goToPrevious imgs c, [GoToPrevious])"
    by (auto simp: PortfolioCard_onTouchEnd_def SliderCard_onTouchEnd_def
        minSwipeDistance_def js_not_def Let_def)
  from lightbox small single left right
    PortfolioCard_onTouchEnd_calls [of imgs c] SliderCard_onTouchEnd_calls [of imgs c]
  show ?thesis by blast
qed


theorem swipe_navigation_witness:
  "handleTouchEnd (gallery 3) 100 70 (showing 1) = (showing 1, []) \<and>
   handleTouchEnd (gallery 3) 100 40 (showing 1) =
     (goToNext (gallery 3) (showing 1), [GoToNext]) \<and>
   handleTouchEnd (gallery 3) 40 100 (showing 1) =
     (goToPrevious (gallery 3) (showing 1), [GoToPrevious]) \<and>
   PortfolioCard_onTouchEnd [festival, festival]
     \<lparr>currentImageIndex = 0, touchStart = Some 100, touchEnd = Some 70\<rparr> =
     (\<lparr>currentImageIndex = 0, touchStart = Some 100, touchEnd = Some 70\<rparr>, []) \<and>
   PortfolioCard_onTouchEnd [festival]
     \<lparr>currentImageIndex = 0, touchStart = Some 100, touchEnd = Some 40\<rparr> =
     (\<lparr>currentImageIndex = 0, touchStart = Some 100, touchEnd = Some 40\<rparr>, []) \<and>
   PortfolioCard_onTouchEnd [festival, festival]
     \<lparr>currentImageIndex = 0, touchStart = Some 100, touchEnd = Some 40\<rparr> =
     (\<lparr>currentImageIndex = 1, touchStart = Some 100, touchEnd = Some 40\<rparr>, [GoToNext]) \<and>
   SliderCard_onTouchEnd [festival, festival]
     \<lparr>currentImageIndex = 0, touchStart = Some 40, touchEnd = Some 100\<rparr> =
     (\<lparr>currentImageIndex = 1, touchStart = Some 40, touchEnd = Some 100\<rparr>, [GoToPrevious])"
  using
    swipe_navigation [of 100 70 "gallery 3" "showing 1" "[festival, festival]"
      "\<lparr>currentImageIndex = 0, touchStart = Some 100, touchEnd = Some 70\<rparr>" 100 70]
    swipe_navigation [of 100 40 "gallery 3" "showing 1" "[festival]"
      "\<lparr>currentImageIndex = 0, touchStart = Some 100, touchEnd = Some 40\<rparr>" 100 40]
    swipe_navigation [of 100 40 "gallery 3" "showing 1" "[festival, festival]"
      "\<lparr>currentImageIndex = 0, touchStart = Some 100, touchEnd = Some 40\<rparr>" 100 40]
    swipe_navigation [of 40 100 "gallery 3" "showing 1" "[festival, festival]"
      "\<lparr>currentImageIndex = 0, touchStart = Some 40, touchEnd = Some 100\<rparr>" 40 100]
  by (simp add: PortfolioCard_goToNext_def SliderCard_goToPrevious_def)

text \<open>
  C10. In both card sliders, when the recorded start or the recorded end of a touch
  is exactly 0, the touch end makes no navigation call and leaves the slider as it
  was, whatever the other coordinate and however many images the card has.
\<close>

theorem onTouchEnd_zero_coordinate:
  assumes "touchStart c = Some 0 \<or> touchEnd c = Some 0"
  shows "PortfolioCard_onTouchEnd imgs c = (c, []) \<and> SliderCard_onTouchEnd imgs c = (c, [])"
  using assms
  by (auto simp: PortfolioCard_onTouchEnd_def SliderCard_onTouchEnd_def js_not_def)

theorem onTouchEnd_zero_coordinate_witness:
  "touchStart (onTouchMove 200 (onTouchStart 0 \<lparr>currentImageIndex = 1, touchStart = None, touchEnd = None\<rparr>))
     = Some 0 \<and>
   PortfolioCard_onTouchEnd [festival, festival, festival]
     (onTouchMove 200 (onTouchStart 0 \<lparr>currentImageIndex = 1, touchStart = None, touchEnd = None\<rparr>)) =
     (\<lparr>currentImageIndex = 1, touchStart = Some 0, touchEnd = Some 200\<rparr>, []) \<and>
   SliderCard_onTouchEnd [festival, festival, festival]
     (onTouchMove 200 (onTouchStart 0 \<lparr>currentImageIndex = 1, touchStart = None, touchEnd = None\<rparr>)) =
     (\<lparr>currentImageIndex = 1, touchStart = Some 0, touchEnd = Some 200\<rparr>, []) \<and>
   PortfolioCard_onTouchEnd [festival, festival, festival]
     \<lparr>currentImageIndex = 1, touchStart = Some 200, touchEnd = Some 0\<rparr> =
     (\<lparr>currentImageIndex = 1, touchStart = Some 200, touchEnd = Some 0\<rparr>, [])"
  using
    onTouchEnd_zero_coordinate [of
      "onTouchMove 200 (onTouchStart 0 \<lparr>currentImageIndex = 1, touchStart = None, touchEnd = None\<rparr>)"
      "[festival, festival, festival]"]
    onTouchEnd_zero_coordinate [of
      "\<lparr>currentImageIndex = 1, touchStart = Some 200, touchEnd = Some 0\<rparr>"
      "[festival, festival, festival]"]
  by (simp add: onTouchMove_def onTouchStart_def)

section \<open>Indexing in the simple lightbox\<close>

text \<open>
  C9. In \<open>EnhancedLightbox\<close>, when the lightbox is open and has images, the current
  image is read at \<open>currentIndex\<close> with no range check: for every index outside the
  array the read yields no image, and rendering throws on the first field access
  instead of producing a view.
\<close>

theorem EnhancedLightbox_unguarded_index:
  assumes "props_isOpen p" and "props_images p \<noteq> []"
    and "props_currentIndex p < 0 \<or> int (length (props_images p)) \<le> props_currentIndex p"
  shows "js_index (props_images p) (props_currentIndex p) = None \<and>
         EnhancedLightbox p = Inl TypeError"
  using assms by (auto simp: EnhancedLightbox_def js_index_def)

theorem EnhancedLightbox_unguarded_index_witness:
  "props_isOpen \<lparr>props_isOpen = True, props_images = [festival], props_currentIndex = 1,
      props_title = Some ''Portfolio Showcase'', props_description = None\<rparr> \<and>
   js_index [festival] 1 = None \<and>
   EnhancedLightbox \<lparr>props_isOpen = True, props_images = [festival], props_currentIndex = 1,
      props_title = Some ''Portfolio Showcase'', props_description = None\<rparr> = Inl TypeError \<and>
   EnhancedLightbox \<lparr>props_isOpen = True, props_images = [festival], props_currentIndex = - 1,
      props_title = Some ''Portfolio Showcase'', props_description = None\<rparr> = Inl TypeError"
  using
    EnhancedLightbox_unguarded_index [of
      "\<lparr>props_isOpen = True, props_images = [festival], props_currentIndex = 1,
        props_title = Some ''Portfolio Showcase'', props_description = None\<rparr>"]
    EnhancedLightbox_unguarded_index [of
      "\<lparr>props_isOpen = True, props_images = [festival], props_currentIndex = - 1,
        props_title = Some ''Portfolio Showcase'', props_description = None\<rparr>"]
  by simp

end
